theory Spec2Isabelle
  imports Complex_Main
begin

section \<open>MULTICOLVARDENS: the data model of \<^verbatim>\<open>MultiColvarDensity.cpp\<close>\<close>

text \<open>
  The development embeds \<^verbatim>\<open>src/multicolvar/MultiColvarDensity.cpp\<close>: the constructor
  \<^verbatim>\<open>MultiColvarDensity::MultiColvarDensity\<close>, \<^verbatim>\<open>getNumberOfQuantities\<close>, \<^verbatim>\<open>update\<close> and
  \<^verbatim>\<open>performTask\<close>.

  A \<^verbatim>\<open>double\<close> is an ideal real number here: the properties below are about which branch
  is taken and which value is stored where, not about rounding. \<^verbatim>\<open>Tools::convert\<close> between
  a double and its string is the identity on that real, so the grid's bound strings are
  kept as the numbers they denote. The tolerance \<^verbatim>\<open>epsilon\<close> of \<^verbatim>\<open>tools/Tools.h\<close> is a
  parameter \<open>eps\<close> of every function that compares against it.
\<close>

type_synonym Vector = "nat \<Rightarrow> real"
type_synonym Tensor = "nat \<Rightarrow> nat \<Rightarrow> real"

text \<open>
  \<^verbatim>\<open>error(msg)\<close> of an action stops the run with the message, a failed \<^verbatim>\<open>plumed_assert\<close>
  stops it with the asserted condition; \<open>Undefined\<close> stands for what C++ leaves undefined
  (an element read outside a vector, a null pointer used).
\<close>

datatype error = Error string | Assertion string | Undefined

subsection \<open>The grid vessel\<close>

text \<open>
  \<^verbatim>\<open>gridtools::HistogramOnGrid\<close> and \<^verbatim>\<open>gridtools::AverageOnGrid\<close> are used through their
  interface only. The record keeps what this action hands to the grid and reads back:
  the option string, the norm, the cube units, the bounds and bin layout given to
  \<^verbatim>\<open>setBounds\<close>, and the value vectors of the tasks run so far.
\<close>

datatype grid_kind = HistogramOnGrid | AverageOnGrid

record grid =
  kind :: grid_kind
  input :: string
  grid_norm :: real
  cube_units :: "real option"
  str_min :: "real list"
  str_max :: "real list"
  grid_nbins :: "nat list"
  grid_spacing :: "real list"
  deposited :: "real list list"

text \<open>Modelled from the spec: a grid vessel as created, with no bounds, no data and norm 0.\<close>

definition new_grid :: "grid_kind \<Rightarrow> string \<Rightarrow> grid" where
  "new_grid k vstring =
     \<lparr>kind = k, input = vstring, grid_norm = 0, cube_units = None,
      str_min = [], str_max = [], grid_nbins = [], grid_spacing = [], deposited = []\<rparr>"

text \<open>
  Modelled from the spec: the normalization counter of GridStore, written by \<^verbatim>\<open>setNorm\<close> and
  read by \<^verbatim>\<open>getNorm\<close>; the cube units are output metadata, stored as given.
\<close>

definition setNorm :: "real \<Rightarrow> grid \<Rightarrow> grid" where
  "setNorm v g = g\<lparr>grid_norm := v\<rparr>"

definition getNorm :: "grid \<Rightarrow> real" where
  "getNorm g = grid_norm g"

definition setCubeUnits :: "real \<Rightarrow> grid \<Rightarrow> grid" where
  "setCubeUnits u g = g\<lparr>cube_units := Some u\<rparr>"

text \<open>Modelled from the spec: GridStore \<^verbatim>\<open>reset()\<close> zeroes all cells and the normalization.\<close>

definition clear :: "grid \<Rightarrow> grid" where
  "clear g = g\<lparr>grid_norm := 0, deposited := []\<rparr>"

text \<open>Modelled from the spec: GridStore \<^verbatim>\<open>bind\<close> fixes the axis bounds and the bin layout.\<close>

definition setBounds :: "real list \<Rightarrow> real list \<Rightarrow> nat list \<Rightarrow> real list \<Rightarrow> grid \<Rightarrow> grid" where
  "setBounds gmin gmax nb sp g =
     g\<lparr>str_min := gmin, str_max := gmax, grid_nbins := nb, grid_spacing := sp\<rparr>"

text \<open>Modelled from the spec: the upper bounds the grid was last bound to.\<close>

definition getMax :: "grid \<Rightarrow> real list" where
  "getMax g = str_max g"

subsection \<open>The input line and the upstream action\<close>

record multicolvar =
  getLabel :: string
  isDensity :: bool
  getFullNumberOfTasks :: nat

datatype action = MultiColvarBase multicolvar | OtherAction string

text \<open>
  The keywords of one MULTICOLVARDENS line as the parser returns them: \<^verbatim>\<open>parseFlag\<close> gives
  a boolean, \<^verbatim>\<open>parseVector\<close> a (possibly empty) vector, \<^verbatim>\<open>parse\<close> of an optional keyword
  leaves its target alone when the keyword is absent (\<open>None\<close>). \<open>getDependencies\<close> is what
  \<^verbatim>\<open>readArgument\<close> registered, \<open>getKeyword\<close> the text the action returns for a keyword.
\<close>

record ActionOptions =
  ORIGIN :: "nat list"
  getDependencies :: "action list"
  argument_label :: string
  FRACTIONAL :: bool
  DIR :: string
  NBINS :: "nat list"
  SPACING :: "real list"
  XREDUCED :: bool
  XLOWER :: "real option"
  XUPPER :: "real option"
  YREDUCED :: bool
  YLOWER :: "real option"
  YUPPER :: "real option"
  ZREDUCED :: bool
  ZLOWER :: "real option"
  ZUPPER :: "real option"
  getKeyword :: "string \<Rightarrow> string"
  NOMEMORY :: bool
  UNORMALIZED :: bool
  usingNaturalUnits :: bool
  getLength :: real

subsection \<open>The action\<close>

record MultiColvarDensity =
  nomemory :: bool
  fractional :: bool
  single_run :: bool
  mycolv :: multicolvar
  nbins :: "nat list"
  gspacing :: "real list"
  confined :: "bool list"
  cmin :: "real list"
  cmax :: "real list"
  mygrid :: grid
  origin :: Vector
  directions :: "nat list"
  requested_atoms :: "nat list"
  task_list :: "nat list"

section \<open>The constructor\<close>

text \<open>Lines 185-210: the \<^verbatim>\<open>DIR\<close> keyword selects the axes.\<close>

definition parse_DIR :: "string \<Rightarrow> error + nat list" where
  "parse_DIR direction =
     (if direction = ''x'' then Inr [0]
      else if direction = ''y'' then Inr [1]
      else if direction = ''z'' then Inr [2]
      else if direction = ''xy'' then Inr [0, 1]
      else if direction = ''xz'' then Inr [0, 2]
      else if direction = ''yz'' then Inr [1, 2]
      else if direction = ''xyz'' then Inr [0, 1, 2]
      else Inl (Error (direction @ '' is not valid gradient direction'')))"

text \<open>
  Lines 218-224 (and 226-232, 234-240): one axis with its REDUCED flag, its LOWER and UPPER
  keywords and its two messages. The result is \<open>(confined[i], cmin[i], cmax[i])\<close>; an
  unconfined axis keeps the zeros of \<^verbatim>\<open>resize\<close>.
\<close>

text \<open>\<^verbatim>\<open>parse(key, t)\<close> of an optional keyword: \<open>t\<close> keeps its value when the keyword is absent.\<close>

definition parse :: "real option \<Rightarrow> real \<Rightarrow> real" where
  "parse keyword t = (case keyword of None \<Rightarrow> t | Some v \<Rightarrow> v)"

definition parse_reduced ::
  "real \<Rightarrow> bool \<Rightarrow> bool \<Rightarrow> real option \<Rightarrow> real option \<Rightarrow> string \<Rightarrow> string
     \<Rightarrow> error + (bool \<times> real \<times> real)" where
  "parse_reduced eps frc tflag lower upper incompatible nosense =
     (if tflag then
        (let lo = parse lower 0.0;
             hi = parse upper 0.0
         in if frc then Inl (Error incompatible)
            else if \<bar>lo - hi\<bar> < eps then Inl (Error nosense)
            else Inr (True, lo, hi))
      else Inr (False, 0, 0))"

definition parse_axis :: "real \<Rightarrow> ActionOptions \<Rightarrow> nat \<Rightarrow> error + (bool \<times> real \<times> real)" where
  "parse_axis eps opts d =
     (if d = 0 then
        parse_reduced eps (FRACTIONAL opts) (XREDUCED opts) (XLOWER opts) (XUPPER opts)
          ''XREDUCED is incompatible with FRACTIONAL'' ''range set for x axis makes no sense''
      else if d = 1 then
        parse_reduced eps (FRACTIONAL opts) (YREDUCED opts) (YLOWER opts) (YUPPER opts)
          ''YREDUCED is incompatible with FRACTIONAL'' ''range set for y axis makes no sense''
      else if d = 2 then
        parse_reduced eps (FRACTIONAL opts) (ZREDUCED opts) (ZLOWER opts) (ZUPPER opts)
          ''ZREDUCED is incompatible with FRACTIONAL''
          ''range set for z axis search makes no sense''
      else Inr (False, 0, 0))"

text \<open>Lines 215-242: the loop over the axes, stopping at the first error.\<close>

fun parse_axes ::
  "real \<Rightarrow> ActionOptions \<Rightarrow> nat list \<Rightarrow> error + (bool list \<times> real list \<times> real list)" where
  "parse_axes eps opts [] = Inr ([], [], [])"
| "parse_axes eps opts (d # ds) =
     (case parse_axis eps opts d of
        Inl e \<Rightarrow> Inl e
      | Inr (c, lo, hi) \<Rightarrow>
          (case parse_axes eps opts ds of
             Inl e \<Rightarrow> Inl e
           | Inr (cs, los, his) \<Rightarrow> Inr (c # cs, lo # los, hi # his)))"

text \<open>Lines 245-250: the periodicity flags, \<^verbatim>\<open>PBC=\<close> and one letter per axis.\<close>

definition pbc_string :: "bool list \<Rightarrow> string" where
  "pbc_string cf =
     fold (\<lambda>i v. v @ (if cf ! i then '',F'' else '',T'')) [1..<length cf]
       (if cf ! 0 then '' PBC=F'' else '' PBC=T'')"

text \<open>Lines 252-260: the axis names.\<close>

definition coordinates_string :: "nat list \<Rightarrow> string" where
  "coordinates_string ds =
     fold (\<lambda>i v. v @ (if ds ! i = 0 then '',x'' else if ds ! i = 1 then '',y''
                       else if ds ! i = 2 then '',z'' else ''''))
       [1..<length ds]
       ('' COORDINATES='' @ (if ds ! 0 = 0 then ''x'' else if ds ! 0 = 1 then ''y''
                             else if ds ! 0 = 2 then ''z'' else ''''))"

text \<open>Lines 244-265: the option string of the grid vessel.\<close>

definition make_vstring :: "ActionOptions \<Rightarrow> bool list \<Rightarrow> nat list \<Rightarrow> string" where
  "make_vstring opts cf ds =
     getKeyword opts ''KERNEL'' @ '' '' @ getKeyword opts ''BANDWIDTH''
     @ pbc_string cf
     @ '' COMPONENTS='' @ argument_label opts @ ''.dens''
     @ coordinates_string ds
     @ (if NOMEMORY opts then '' NOMEMORY'' else '''')
     @ (if UNORMALIZED opts then '' UNORMALIZED'' else '''')"

text \<open>Lines 271-280: the grid, its norm in density mode, and the cube units.\<close>

definition make_grid :: "ActionOptions \<Rightarrow> multicolvar \<Rightarrow> string \<Rightarrow> grid" where
  "make_grid opts mc vstring =
     (let g = (if isDensity mc then setNorm 0 (new_grid HistogramOnGrid vstring)
               else new_grid AverageOnGrid vstring)
      in if \<not> FRACTIONAL opts then
           (if usingNaturalUnits opts then setCubeUnits (1.0 / 0.5292) g
            else setCubeUnits (getLength opts / 0.05929) g)
         else g)"

text \<open>
  Lines 163-285. \<^verbatim>\<open>getDependencies()[0]\<close> on an empty vector and the use of the null
  \<^verbatim>\<open>mycolv\<close> inside the message of line 180 are undefined in C++; a failed
  \<^verbatim>\<open>plumed_assert\<close> stops the run. The log output and \<^verbatim>\<open>checkRead\<close> (the framework's
  test for words of the line that no \<^verbatim>\<open>parse\<close> call consumed) are not part of the model,
  which starts from the parsed keywords.
\<close>

definition construct :: "real \<Rightarrow> ActionOptions \<Rightarrow> error + MultiColvarDensity" where
  "construct eps opts =
     (if length (ORIGIN opts) \<noteq> 1 then Inl (Error ''should only be one atom specified'')
      else case getDependencies opts of
        [] \<Rightarrow> Inl Undefined
      | a # rest \<Rightarrow>
          if rest \<noteq> [] then Inl (Assertion ''getDependencies().size()==1'')
          else (case a of
            OtherAction l \<Rightarrow> Inl Undefined
          | MultiColvarBase mc \<Rightarrow>
              (case parse_DIR (DIR opts) of
                 Inl e \<Rightarrow> Inl e
               | Inr ds \<Rightarrow>
                   if length (NBINS opts) \<noteq> length ds \<and> length (SPACING opts) \<noteq> length ds
                   then Inl (Error ''NBINS or SPACING must be set'')
                   else (case parse_axes eps opts ds of
                      Inl e \<Rightarrow> Inl e
                    | Inr (cf, los, his) \<Rightarrow>
                        Inr \<lparr>nomemory = NOMEMORY opts,
                             fractional = FRACTIONAL opts,
                             single_run = True,
                             mycolv = mc,
                             nbins = NBINS opts,
                             gspacing = SPACING opts,
                             confined = cf,
                             cmin = los,
                             cmax = his,
                             mygrid = make_grid opts mc (make_vstring opts cf ds),
                             origin = (\<lambda>i. 0),
                             directions = ds,
                             requested_atoms = ORIGIN opts,
                             task_list = [0..<getFullNumberOfTasks mc]\<rparr>))))"

text \<open>Line 121.\<close>

definition setAnalysisStride :: "bool \<Rightarrow> nat \<Rightarrow> MultiColvarDensity \<Rightarrow> MultiColvarDensity" where
  "setAnalysisStride use_all astride s = s\<lparr>single_run := use_all\<rparr>"

text \<open>Lines 287-289.\<close>

definition getNumberOfQuantities :: "MultiColvarDensity \<Rightarrow> nat" where
  "getNumberOfQuantities s = length (directions s) + 2"

section \<open>One accumulation step\<close>

text \<open>
  What one call of \<^verbatim>\<open>update\<close> reads from outside the action: the step, the grid's answer to
  \<^verbatim>\<open>wasreset()\<close>, the cell of the upstream action and whether it is orthorhombic, the
  position of every atom, the values held by the store (one vector \<open>cvals\<close> per slot), the
  central atom of every active task, and the two operations of the periodic cell.
\<close>

record frame =
  getStep :: int
  wasreset :: bool
  getBox :: Tensor
  isOrthorombic :: bool
  atom_position :: "nat \<Rightarrow> Vector"
  stored :: "real list list"
  getCentralAtomPos :: "nat \<Rightarrow> Vector"
  pbcDistance :: "Vector \<Rightarrow> Vector \<Rightarrow> Vector"
  realToScaled :: "Vector \<Rightarrow> Vector"

definition getNumberOfStoredValues :: "frame \<Rightarrow> nat" where
  "getNumberOfStoredValues f = length (stored f)"

text \<open>\<^verbatim>\<open>getPosition(i)\<close> is the position of the i-th atom given to \<^verbatim>\<open>requestAtoms\<close>.\<close>

definition getPosition :: "MultiColvarDensity \<Rightarrow> frame \<Rightarrow> nat \<Rightarrow> Vector" where
  "getPosition s f i = atom_position f (requested_atoms s ! i)"

text \<open>Lines 331-338. \<open>myvals\<close> is the task's value vector, \<^verbatim>\<open>setValue\<close> an update in place.\<close>

definition performTask ::
  "MultiColvarDensity \<Rightarrow> frame \<Rightarrow> nat \<Rightarrow> nat \<Rightarrow> real list \<Rightarrow> real list" where
  "performTask s f tindex current myvals =
     (let cvals = stored f ! current;
          apos = pbcDistance f (origin s) (getCentralAtomPos f current);
          fpos = (if fractional s then realToScaled f apos else apos);
          myvals1 = myvals[0 := cvals ! 0];
          myvals2 = fold (\<lambda>j mv. mv[1 + j := fpos (directions s ! j)])
                      [0..<length (directions s)] myvals1
      in myvals2[1 + length (directions s) := cvals ! 1])"

text \<open>
  Modelled from the spec (steps 4 and 7 of the accumulation cycle), for
  \<^verbatim>\<open>runAllTasks\<close> of the vessel framework: every active task gets a fresh value vector of
  \<^verbatim>\<open>getNumberOfQuantities()\<close> zeros, runs \<^verbatim>\<open>performTask\<close> and hands the vector to the grid.
  Lines 322-324 made the active tasks the slots of the store, in order.
\<close>

definition runAllTasks :: "MultiColvarDensity \<Rightarrow> frame \<Rightarrow> MultiColvarDensity" where
  "runAllTasks s f =
     s\<lparr>mygrid := (mygrid s)\<lparr>deposited := deposited (mygrid s) @
          map (\<lambda>current. performTask s f current current
                 (replicate (getNumberOfQuantities s) 0))
            [0..<getNumberOfStoredValues f]\<rparr>\<rparr>"

text \<open>The message of line 300.\<close>

definition nonorthorhombic_message :: string where
  "nonorthorhombic_message =
     ''I think that density profiles with non-orthorhombic cells don'' @ [CHR 0x27]
     @ ''t work.  If you want it have a look and see if you can work it out''"

text \<open>Lines 295-312: the bounds of a grid that was reset.\<close>

definition new_bounds :: "MultiColvarDensity \<Rightarrow> frame \<Rightarrow> error + (real list \<times> real list)" where
  "new_bounds s f =
     (let n = length (directions s);
          mn = replicate n (- 0.5);
          mx = replicate n 0.5
      in if \<not> fractional s then
           (if \<not> isOrthorombic f then
              Inl (Error nonorthorhombic_message)
            else
              Inr (map (\<lambda>i. if \<not> confined s ! i
                            then mn ! i * getBox f (directions s ! i) (directions s ! i)
                            else cmin s ! i) [0..<n],
                   map (\<lambda>i. if \<not> confined s ! i
                            then mx ! i * getBox f (directions s ! i) (directions s ! i)
                            else cmax s ! i) [0..<n]))
         else Inr (mn, mx))"

text \<open>
  Lines 316-319: the box against the bounds the grid holds, axis by axis. Reading
  \<^verbatim>\<open>getMax()[i]\<close> beyond the bounds the grid has is undefined.
\<close>

fun check_box :: "real \<Rightarrow> MultiColvarDensity \<Rightarrow> frame \<Rightarrow> nat list \<Rightarrow> error option" where
  "check_box eps s f [] = None"
| "check_box eps s f (i # is) =
     (if i < length (getMax (mygrid s)) then
        (let mx = getMax (mygrid s) ! i
         in if \<bar>2 * mx - getBox f (directions s ! i) (directions s ! i)\<bar> > eps
            then Some (Error ''box size should be fixed.  Use FRACTIONAL'')
            else check_box eps s f is)
      else Some Undefined)"

text \<open>Lines 294-320: a grid that was reset is cleared and bound, any other is checked.\<close>

definition prepare_grid ::
  "real \<Rightarrow> MultiColvarDensity \<Rightarrow> frame \<Rightarrow> error + MultiColvarDensity" where
  "prepare_grid eps s f =
     (if wasreset f then
        (case new_bounds s f of
           Inl e \<Rightarrow> Inl e
         | Inr (gmin, gmax) \<Rightarrow>
             Inr (s\<lparr>mygrid := setBounds gmin gmax (nbins s) (gspacing s)
                                (clear (mygrid s))\<rparr>))
      else
        (case check_box eps s f [0..<length (directions s)] of
           Some e \<Rightarrow> Inl e
         | None \<Rightarrow> Inr s))"

text \<open>
  Lines 321-328. \<^verbatim>\<open>taskFlags\<close> has one entry per task of the list built by the
  constructor, so flagging more stored values than that writes outside it.
\<close>

definition accumulate :: "MultiColvarDensity \<Rightarrow> frame \<Rightarrow> error + MultiColvarDensity" where
  "accumulate s f =
     (if length (task_list s) < getNumberOfStoredValues f then Inl Undefined
      else
        (let s2 = s\<lparr>origin := getPosition s f 0\<rparr>;
             s3 = (if isDensity (mycolv s2)
                   then s2\<lparr>mygrid := setNorm (1 + getNorm (mygrid s2)) (mygrid s2)\<rparr>
                   else s2)
         in Inr (runAllTasks s3 f)))"

text \<open>Lines 291-329.\<close>

definition update :: "real \<Rightarrow> MultiColvarDensity \<Rightarrow> frame \<Rightarrow> error + MultiColvarDensity" where
  "update eps s f =
     (if \<not> single_run s \<and> getStep f = 0 then Inr s
      else
        (case prepare_grid eps s f of
           Inl e \<Rightarrow> Inl e
         | Inr s1 \<Rightarrow> accumulate s1 f))"

text \<open>The scheduler calls \<^verbatim>\<open>update\<close> once per frame; the first error stops the run.\<close>

fun run_frames ::
  "real \<Rightarrow> MultiColvarDensity \<Rightarrow> frame list \<Rightarrow> error + MultiColvarDensity" where
  "run_frames eps s [] = Inr s"
| "run_frames eps s (f # fs) =
     (case update eps s f of Inl e \<Rightarrow> Inl e | Inr s' \<Rightarrow> run_frames eps s' fs)"

section \<open>The invariant of the action\<close>

text \<open>
  What the constructor establishes and no later call changes: one of the seven axis
  selections, one entry of \<^verbatim>\<open>confined\<close>, \<^verbatim>\<open>cmin\<close> and \<^verbatim>\<open>cmax\<close> per axis, one origin atom,
  and no confined axis in fractional mode. The vectors are read by index only under it.
\<close>

definition well_formed :: "MultiColvarDensity \<Rightarrow> bool" where
  "well_formed s =
     (directions s \<in> {[0], [1], [2], [0, 1], [0, 2], [1, 2], [0, 1, 2]} \<and>
      length (confined s) = length (directions s) \<and>
      length (cmin s) = length (directions s) \<and>
      length (cmax s) = length (directions s) \<and>
      length (requested_atoms s) = 1 \<and>
      \<not> (fractional s \<and> True \<in> set (confined s)))"

section \<open>Reading a comma-separated keyword value\<close>

text \<open>The grid reads \<^verbatim>\<open>PBC=\<close> as one entry per axis, separated by commas.\<close>

fun comma_separated :: "string list \<Rightarrow> string" where
  "comma_separated [] = []"
| "comma_separated [x] = x"
| "comma_separated (x # y # ys) = x @ '','' @ comma_separated (y # ys)"

section \<open>Concrete inputs\<close>

text \<open>\<^verbatim>\<open>std::numeric_limits<double>::epsilon()\<close>, the value of \<^verbatim>\<open>epsilon\<close> in \<^verbatim>\<open>tools/Tools.h\<close>.\<close>

definition double_epsilon :: real where
  "double_epsilon = 1 / 2 ^ 52"

text \<open>
  \<^verbatim>\<open>MULTICOLVARDENS DATA=dens ORIGIN=1 DIR=xy NBINS=10,10 BANDWIDTH=0.05,0.05 YREDUCED
  YLOWER=1 YUPPER=3\<close> on a density with two tasks.
\<close>

definition dens :: multicolvar where
  "dens = \<lparr>getLabel = ''dens'', isDensity = True, getFullNumberOfTasks = 2\<rparr>"

definition options_xy :: ActionOptions where
  "options_xy =
     \<lparr>ORIGIN = [1], getDependencies = [MultiColvarBase dens], argument_label = ''dens'',
      FRACTIONAL = False, DIR = ''xy'', NBINS = [10, 10], SPACING = [],
      XREDUCED = False, XLOWER = None, XUPPER = None,
      YREDUCED = True, YLOWER = Some 1, YUPPER = Some 3,
      ZREDUCED = False, ZLOWER = None, ZUPPER = None,
      getKeyword = (\<lambda>k. if k = ''KERNEL'' then ''KERNEL=gaussian''
                          else ''BANDWIDTH=0.05,0.05''),
      NOMEMORY = False, UNORMALIZED = False, usingNaturalUnits = False, getLength = 1\<rparr>"

text \<open>The same line along x only, without confinement; and with \<^verbatim>\<open>FRACTIONAL\<close>.\<close>

definition options_x :: ActionOptions where
  "options_x = options_xy\<lparr>DIR := ''x'', NBINS := [10], YREDUCED := False,
                          YLOWER := None, YUPPER := None\<rparr>"

definition options_fractional :: ActionOptions where
  "options_fractional = options_x\<lparr>FRACTIONAL := True\<rparr>"

definition density_xy :: MultiColvarDensity where
  "density_xy = projr (construct double_epsilon options_xy)"

definition density_x :: MultiColvarDensity where
  "density_x = projr (construct double_epsilon options_x)"

definition density_fractional :: MultiColvarDensity where
  "density_fractional = projr (construct double_epsilon options_fractional)"

text \<open>
  A cubic cell of side 10 and a sheared cell; one frame with two particles. The cell
  operations are the ones of the cubic cell without wrapping.
\<close>

definition cubic_box :: Tensor where
  "cubic_box = (\<lambda>i j. if i = j then 10 else 0)"

definition sheared_box :: Tensor where
  "sheared_box = (\<lambda>i j. if i = j then 10 else if i = 1 \<and> j = 0 then 5 else 0)"

definition frame_cubic :: frame where
  "frame_cubic =
     \<lparr>getStep = 0, wasreset = True, getBox = cubic_box, isOrthorombic = True,
      atom_position = (\<lambda>a i. if a = 1 then 1 else 0),
      stored = [[1, 7], [1, 9]],
      getCentralAtomPos = (\<lambda>t i. real t + real i + 2),
      pbcDistance = (\<lambda>a b i. b i - a i),
      realToScaled = (\<lambda>v i. v i / 10)\<rparr>"

definition frame_sheared :: frame where
  "frame_sheared = frame_cubic\<lparr>getBox := sheared_box, isOrthorombic := False\<rparr>"

definition frame_next :: frame where
  "frame_next = frame_cubic\<lparr>getStep := 1, wasreset := False\<rparr>"

text \<open>Setups that must be refused: confinement with \<^verbatim>\<open>FRACTIONAL\<close>, no bin layout, an empty range.\<close>

definition options_conflict :: ActionOptions where
  "options_conflict = options_fractional\<lparr>XREDUCED := True, XLOWER := Some 1, XUPPER := Some 3\<rparr>"

definition options_nobins :: ActionOptions where
  "options_nobins = options_xy\<lparr>NBINS := []\<rparr>"

definition options_degenerate :: ActionOptions where
  "options_degenerate = options_xy\<lparr>YLOWER := Some 2, YUPPER := Some 2\<rparr>"

text \<open>The action of \<open>options_x\<close> inside a windowed analysis, and a line with two origin atoms.\<close>

definition density_windowed :: MultiColvarDensity where
  "density_windowed = setAnalysisStride False 1 density_x"

definition options_two_origins :: ActionOptions where
  "options_two_origins = options_x\<lparr>ORIGIN := [1, 2]\<rparr>"

section \<open>Facts about the constructor\<close>

lemmas option_defs = options_xy_def options_x_def options_fractional_def dens_def

lemma parse_DIR_cases:
  "parse_DIR d = Inr ds \<Longrightarrow> ds \<in> {[0], [1], [2], [0, 1], [0, 2], [1, 2], [0, 1, 2]}"
  by (auto simp: parse_DIR_def split: if_splits)

lemma parse_axes_length:
  "parse_axes eps opts ds = Inr (cf, los, his) \<Longrightarrow>
     length cf = length ds \<and> length los = length ds \<and> length his = length ds"
  by (induction ds arbitrary: cf los his) (auto split: sum.splits prod.splits)

lemma parse_axes_nth:
  "parse_axes eps opts ds = Inr (cf, los, his) \<Longrightarrow> i < length ds \<Longrightarrow>
     parse_axis eps opts (ds ! i) = Inr (cf ! i, los ! i, his ! i)"
proof (induction ds arbitrary: cf los his i)
  case Nil
  then show ?case by simp
next
  case (Cons d ds)
  then show ?case
    by (cases i) (auto split: sum.splits prod.splits)
qed

lemma parse_axes_fail:
  "d \<in> set ds \<Longrightarrow> parse_axis eps opts d = Inl e \<Longrightarrow> \<exists>e'. parse_axes eps opts ds = Inl e'"
  by (induction ds) (auto split: sum.splits prod.splits)

lemma parse_axes_error_from_axis:
  "parse_axes eps opts ds = Inl e \<Longrightarrow> \<exists>d \<in> set ds. parse_axis eps opts d = Inl e"
  by (induction ds) (auto split: sum.splits prod.splits)

lemma construct_InrE:
  assumes "construct eps opts = Inr s"
  obtains mc ds cf los his where
    "length (ORIGIN opts) = 1" "getDependencies opts = [MultiColvarBase mc]"
    "parse_DIR (DIR opts) = Inr ds"
    "length (NBINS opts) = length ds \<or> length (SPACING opts) = length ds"
    "parse_axes eps opts ds = Inr (cf, los, his)"
    "s = \<lparr>nomemory = NOMEMORY opts, fractional = FRACTIONAL opts, single_run = True,
          mycolv = mc, nbins = NBINS opts, gspacing = SPACING opts, confined = cf,
          cmin = los, cmax = his, mygrid = make_grid opts mc (make_vstring opts cf ds),
          origin = (\<lambda>i. 0), directions = ds, requested_atoms = ORIGIN opts,
          task_list = [0..<getFullNumberOfTasks mc]\<rparr>"
  using assms unfolding construct_def
  by (auto split: if_splits list.splits action.splits sum.splits prod.splits)

lemma construct_after_checks:
  assumes "length (ORIGIN opts) = 1" "getDependencies opts = [MultiColvarBase mc]"
    "parse_DIR (DIR opts) = Inr ds"
    "length (NBINS opts) = length ds \<or> length (SPACING opts) = length ds"
    "parse_axes eps opts ds = Inl e"
  shows "construct eps opts = Inl e"
  using assms unfolding construct_def by auto

lemma construct_fails_with_axes:
  assumes "parse_DIR (DIR opts) = Inr ds" "parse_axes eps opts ds = Inl e"
  shows "\<exists>e'. construct eps opts = Inl e'"
  using assms unfolding construct_def
  by (auto split: if_splits list.splits action.splits sum.splits prod.splits)

lemma parse_axis_fractional_error:
  "FRACTIONAL opts \<Longrightarrow> parse_axis eps opts d = Inl e \<Longrightarrow>
     e \<in> {Error ''XREDUCED is incompatible with FRACTIONAL'',
          Error ''YREDUCED is incompatible with FRACTIONAL'',
          Error ''ZREDUCED is incompatible with FRACTIONAL''}"
  by (auto simp: parse_axis_def parse_reduced_def Let_def split: if_splits)

lemma parse_axis_range_error:
  "\<not> FRACTIONAL opts \<Longrightarrow> parse_axis eps opts d = Inl e \<Longrightarrow>
     e \<in> {Error ''range set for x axis makes no sense'',
          Error ''range set for y axis makes no sense'',
          Error ''range set for z axis search makes no sense''}"
  by (auto simp: parse_axis_def parse_reduced_def Let_def split: if_splits)

lemma parse_axis_degenerate:
  "(d = 0 \<and> XREDUCED opts \<and> \<bar>parse (XLOWER opts) 0 - parse (XUPPER opts) 0\<bar> < eps) \<or>
   (d = 1 \<and> YREDUCED opts \<and> \<bar>parse (YLOWER opts) 0 - parse (YUPPER opts) 0\<bar> < eps) \<or>
   (d = 2 \<and> ZREDUCED opts \<and> \<bar>parse (ZLOWER opts) 0 - parse (ZUPPER opts) 0\<bar> < eps)
   \<Longrightarrow> \<exists>e. parse_axis eps opts d = Inl e"
  by (auto simp: parse_axis_def parse_reduced_def Let_def)

lemma parse_axis_confined:
  assumes "parse_axis eps opts d = Inr (c, lo, hi)"
  shows "c = ((d = 0 \<and> XREDUCED opts) \<or> (d = 1 \<and> YREDUCED opts) \<or> (d = 2 \<and> ZREDUCED opts))"
    and "c \<Longrightarrow> \<not> FRACTIONAL opts"
    and "c \<Longrightarrow> d = 0 \<Longrightarrow> lo = parse (XLOWER opts) 0 \<and> hi = parse (XUPPER opts) 0"
    and "c \<Longrightarrow> d = 1 \<Longrightarrow> lo = parse (YLOWER opts) 0 \<and> hi = parse (YUPPER opts) 0"
    and "c \<Longrightarrow> d = 2 \<Longrightarrow> lo = parse (ZLOWER opts) 0 \<and> hi = parse (ZUPPER opts) 0"
    and "c \<Longrightarrow> eps \<le> \<bar>lo - hi\<bar>"
    and "\<not> c \<Longrightarrow> lo = 0 \<and> hi = 0"
  using assms
  by (auto simp: parse_axis_def parse_reduced_def Let_def split: if_splits)

lemma parse_axes_confined:
  "parse_axes eps opts ds = Inr (cf, los, his) \<Longrightarrow>
     cf = map (\<lambda>d. (d = 0 \<and> XREDUCED opts) \<or> (d = 1 \<and> YREDUCED opts)
                  \<or> (d = 2 \<and> ZREDUCED opts)) ds"
proof (induction ds arbitrary: cf los his)
  case Nil
  then show ?case by simp
next
  case (Cons d ds)
  then show ?case
    by (auto split: sum.splits prod.splits dest: parse_axis_confined(1))
qed

lemma parse_axes_not_fractional:
  "parse_axes eps opts ds = Inr (cf, los, his) \<Longrightarrow> True \<in> set cf \<Longrightarrow> \<not> FRACTIONAL opts"
proof (induction ds arbitrary: cf los his)
  case Nil
  then show ?case by simp
next
  case (Cons d ds)
  then show ?case
    by (auto split: sum.splits prod.splits dest: parse_axis_confined(2))
qed

lemma construct_well_formed:
  assumes "construct eps opts = Inr s"
  shows "well_formed s"
proof -
  from assms obtain mc ds cf los his where
    o: "length (ORIGIN opts) = 1" and d: "parse_DIR (DIR opts) = Inr ds"
    and a: "parse_axes eps opts ds = Inr (cf, los, his)"
    and s: "s = \<lparr>nomemory = NOMEMORY opts, fractional = FRACTIONAL opts, single_run = True,
          mycolv = mc, nbins = NBINS opts, gspacing = SPACING opts, confined = cf,
          cmin = los, cmax = his, mygrid = make_grid opts mc (make_vstring opts cf ds),
          origin = (\<lambda>i. 0), directions = ds, requested_atoms = ORIGIN opts,
          task_list = [0..<getFullNumberOfTasks mc]\<rparr>"
    by (rule construct_InrE)
  have "ds \<in> {[0], [1], [2], [0, 1], [0, 2], [1, 2], [0, 1, 2]}"
    using parse_DIR_cases [OF d] .
  moreover have "length cf = length ds \<and> length los = length ds \<and> length his = length ds"
    using parse_axes_length [OF a] .
  moreover have "\<not> (FRACTIONAL opts \<and> True \<in> set cf)"
    using parse_axes_not_fractional [OF a] by blast
  ultimately show ?thesis
    using o unfolding well_formed_def s by simp
qed

lemma fold_append_nth:
  "fold (\<lambda>i v. v @ h (xs ! i)) [k..<length xs] acc = acc @ concat (map h (drop k xs))"
proof (induction "length xs - k" arbitrary: k acc)
  case 0
  then show ?case by simp
next
  case (Suc m)
  then have k: "k < length xs" by simp
  then have "[k..<length xs] = k # [Suc k..<length xs]"
    by (simp add: upt_conv_Cons)
  moreover have "drop k xs = xs ! k # drop (Suc k) xs"
    using k by (simp add: Cons_nth_drop_Suc)
  moreover have "m = length xs - Suc k"
    using Suc.hyps(2) by simp
  ultimately show ?case
    using Suc.hyps(1) [of "Suc k" "acc @ h (xs ! k)"] by simp
qed

lemma comma_separated_concat:
  assumes "\<And>c. g c = '','' @ h c"
  shows "h c @ concat (map g cs) = comma_separated (map h (c # cs))"
  by (induction cs arbitrary: c) (simp_all add: assms del: append.simps)

lemma pbc_string_entries:
  assumes "cf \<noteq> []"
  shows "pbc_string cf = '' PBC='' @ comma_separated (map (\<lambda>c. if c then ''F'' else ''T'') cf)"
proof -
  obtain c cs where cf: "cf = c # cs"
    using assms by (cases cf) auto
  have "pbc_string cf =
      fold (\<lambda>i v. v @ (\<lambda>c. if c then '',F'' else '',T'') (cf ! i)) [1..<length cf]
        (if cf ! 0 then '' PBC=F'' else '' PBC=T'')"
    by (simp add: pbc_string_def)
  also have "\<dots> = (if cf ! 0 then '' PBC=F'' else '' PBC=T'')
      @ concat (map (\<lambda>c. if c then '',F'' else '',T'') (drop 1 cf))"
    by (rule fold_append_nth)
  also have "\<dots> = '' PBC='' @ ((if c then ''F'' else ''T'')
      @ concat (map (\<lambda>c. if c then '',F'' else '',T'') cs))"
    by (simp add: cf)
  also have "\<dots> = '' PBC='' @ comma_separated (map (\<lambda>c. if c then ''F'' else ''T'') cf)"
  proof -
    have "(if c then ''F'' else ''T'') @ concat (map (\<lambda>c. if c then '',F'' else '',T'') cs)
        = comma_separated (map (\<lambda>c. if c then ''F'' else ''T'') (c # cs))"
      by (rule comma_separated_concat [where g = "\<lambda>c. if c then '',F'' else '',T''"
            and h = "\<lambda>c. if c then ''F'' else ''T''"]) simp
    then show ?thesis
      unfolding cf by (rule arg_cong)
  qed
  finally show ?thesis .
qed

lemmas constructor_defs = construct_def parse_DIR_def parse_axis_def parse_reduced_def parse_def
  make_grid_def make_vstring_def pbc_string_def coordinates_string_def new_grid_def
  setNorm_def setCubeUnits_def double_epsilon_def

lemma construct_options_xy: "construct double_epsilon options_xy = Inr density_xy"
  by (simp add: density_xy_def option_defs constructor_defs)

lemma construct_options_x: "construct double_epsilon options_x = Inr density_x"
  by (simp add: density_x_def option_defs constructor_defs)

lemma construct_options_fractional:
  "construct double_epsilon options_fractional = Inr density_fractional"
  by (simp add: density_fractional_def option_defs constructor_defs)

section \<open>Claims about the setup\<close>

text \<open>
  C5. Axis confinement (\<^verbatim>\<open>XREDUCED\<close>, \<^verbatim>\<open>YREDUCED\<close>, \<^verbatim>\<open>ZREDUCED\<close> on a configured axis)
  together with \<^verbatim>\<open>FRACTIONAL\<close> is refused by the constructor, before any frame: the
  constructor returns an error, and when the earlier checks of the line pass the error
  is the "REDUCED is incompatible with FRACTIONAL" message of a confined axis.
\<close>

theorem reduced_with_fractional_rejected:
  assumes "FRACTIONAL opts" and "parse_DIR (DIR opts) = Inr ds"
    and "(0 \<in> set ds \<and> XREDUCED opts) \<or> (1 \<in> set ds \<and> YREDUCED opts)
           \<or> (2 \<in> set ds \<and> ZREDUCED opts)"
  shows "(\<exists>e. construct eps opts = Inl e) \<and>
         (length (ORIGIN opts) = 1 \<and> getDependencies opts = [MultiColvarBase mc] \<and>
          (length (NBINS opts) = length ds \<or> length (SPACING opts) = length ds) \<longrightarrow>
            construct eps opts \<in>
              {Inl (Error ''XREDUCED is incompatible with FRACTIONAL''),
               Inl (Error ''YREDUCED is incompatible with FRACTIONAL''),
               Inl (Error ''ZREDUCED is incompatible with FRACTIONAL'')})"
proof -
  from assms(1,3) obtain d e where d: "d \<in> set ds" "parse_axis eps opts d = Inl e"
    by (auto simp: parse_axis_def parse_reduced_def Let_def)
  then obtain e' where e': "parse_axes eps opts ds = Inl e'"
    using parse_axes_fail by blast
  then obtain d' where "d' \<in> set ds" "parse_axis eps opts d' = Inl e'"
    using parse_axes_error_from_axis by blast
  then have mem: "e' \<in> {Error ''XREDUCED is incompatible with FRACTIONAL'',
          Error ''YREDUCED is incompatible with FRACTIONAL'',
          Error ''ZREDUCED is incompatible with FRACTIONAL''}"
    using parse_axis_fractional_error [OF assms(1)] by blast
  have "\<exists>e. construct eps opts = Inl e"
    using construct_fails_with_axes [OF assms(2) e'] .
  moreover have "construct eps opts = Inl e'"
    if "length (ORIGIN opts) = 1" "getDependencies opts = [MultiColvarBase mc]"
       "length (NBINS opts) = length ds \<or> length (SPACING opts) = length ds"
    using construct_after_checks [OF that(1,2) assms(2) that(3) e'] .
  ultimately show ?thesis using mem by auto
qed

theorem reduced_with_fractional_rejected_witness:
  "FRACTIONAL options_conflict \<and> parse_DIR (DIR options_conflict) = Inr [0] \<and>
   XREDUCED options_conflict \<and>
   construct double_epsilon options_conflict
     \<in> {Inl (Error ''XREDUCED is incompatible with FRACTIONAL''),
               Inl (Error ''YREDUCED is incompatible with FRACTIONAL''),
               Inl (Error ''ZREDUCED is incompatible with FRACTIONAL'')}"
proof -
  have h1: "FRACTIONAL options_conflict"
    by (simp add: options_conflict_def option_defs)
  have h2: "parse_DIR (DIR options_conflict) = Inr [0]"
    by (simp add: options_conflict_def option_defs parse_DIR_def)
  have x: "XREDUCED options_conflict"
    by (simp add: options_conflict_def option_defs)
  then have h3: "(0 \<in> set [0::nat] \<and> XREDUCED options_conflict)
      \<or> (1 \<in> set [0::nat] \<and> YREDUCED options_conflict)
      \<or> (2 \<in> set [0::nat] \<and> ZREDUCED options_conflict)"
    by simp
  have c: "length (ORIGIN options_conflict) = 1 \<and>
      getDependencies options_conflict = [MultiColvarBase dens] \<and>
      (length (NBINS options_conflict) = length [0::nat]
        \<or> length (SPACING options_conflict) = length [0::nat])"
    by (simp add: options_conflict_def option_defs)
  show ?thesis
    using h1 h2 x c reduced_with_fractional_rejected [OF h1 h2 h3, of double_epsilon dens]
    by blast
qed

text \<open>
  C6. The constructor fails when neither \<^verbatim>\<open>NBINS\<close> nor \<^verbatim>\<open>SPACING\<close> has one entry per
  configured axis ("NBINS or SPACING must be set"), and when a confined axis has
  \<open>\<bar>lower - upper\<bar> < epsilon\<close> ("range set for ... makes no sense"); both at setup.
\<close>

theorem incomplete_or_degenerate_setup_rejected:
  assumes "parse_DIR (DIR opts) = Inr ds"
  shows "(length (NBINS opts) \<noteq> length ds \<and> length (SPACING opts) \<noteq> length ds \<longrightarrow>
            (\<exists>e. construct eps opts = Inl e) \<and>
            (length (ORIGIN opts) = 1 \<and> getDependencies opts = [MultiColvarBase mc] \<longrightarrow>
               construct eps opts = Inl (Error ''NBINS or SPACING must be set''))) \<and>
         ((0 \<in> set ds \<and> XREDUCED opts \<and> \<bar>parse (XLOWER opts) 0 - parse (XUPPER opts) 0\<bar> < eps) \<or>
          (1 \<in> set ds \<and> YREDUCED opts \<and> \<bar>parse (YLOWER opts) 0 - parse (YUPPER opts) 0\<bar> < eps) \<or>
          (2 \<in> set ds \<and> ZREDUCED opts \<and> \<bar>parse (ZLOWER opts) 0 - parse (ZUPPER opts) 0\<bar> < eps) \<longrightarrow>
            (\<exists>e. construct eps opts = Inl e) \<and>
            (length (ORIGIN opts) = 1 \<and> getDependencies opts = [MultiColvarBase mc] \<and>
             (length (NBINS opts) = length ds \<or> length (SPACING opts) = length ds) \<and>
             \<not> FRACTIONAL opts \<longrightarrow>
               construct eps opts \<in>
                 {Inl (Error ''range set for x axis makes no sense''),
                  Inl (Error ''range set for y axis makes no sense''),
                  Inl (Error ''range set for z axis search makes no sense'')}))"
proof (intro conjI impI)
  assume "length (NBINS opts) \<noteq> length ds \<and> length (SPACING opts) \<noteq> length ds"
  then show "\<exists>e. construct eps opts = Inl e"
    using assms unfolding construct_def
    by (auto split: list.splits action.splits)
next
  assume "length (NBINS opts) \<noteq> length ds \<and> length (SPACING opts) \<noteq> length ds"
    and "length (ORIGIN opts) = 1 \<and> getDependencies opts = [MultiColvarBase mc]"
  then show "construct eps opts = Inl (Error ''NBINS or SPACING must be set'')"
    using assms unfolding construct_def by simp
next
  assume deg: "(0 \<in> set ds \<and> XREDUCED opts \<and> \<bar>parse (XLOWER opts) 0 - parse (XUPPER opts) 0\<bar> < eps) \<or>
          (1 \<in> set ds \<and> YREDUCED opts \<and> \<bar>parse (YLOWER opts) 0 - parse (YUPPER opts) 0\<bar> < eps) \<or>
          (2 \<in> set ds \<and> ZREDUCED opts \<and> \<bar>parse (ZLOWER opts) 0 - parse (ZUPPER opts) 0\<bar> < eps)"
  then have "\<exists>d \<in> set ds. \<exists>e. parse_axis eps opts d = Inl e"
    using parse_axis_degenerate [of 0 opts eps] parse_axis_degenerate [of 1 opts eps]
      parse_axis_degenerate [of 2 opts eps]
    by blast
  then obtain e' where e': "parse_axes eps opts ds = Inl e'"
    using parse_axes_fail by blast
  show "\<exists>e. construct eps opts = Inl e"
    using construct_fails_with_axes [OF assms e'] .
  assume ok: "length (ORIGIN opts) = 1 \<and> getDependencies opts = [MultiColvarBase mc] \<and>
             (length (NBINS opts) = length ds \<or> length (SPACING opts) = length ds) \<and>
             \<not> FRACTIONAL opts"
  from e' obtain d' where "d' \<in> set ds" "parse_axis eps opts d' = Inl e'"
    using parse_axes_error_from_axis by blast
  then have "e' \<in> {Error ''range set for x axis makes no sense'',
          Error ''range set for y axis makes no sense'',
          Error ''range set for z axis search makes no sense''}"
    using parse_axis_range_error ok by blast
  moreover have "construct eps opts = Inl e'"
    using construct_after_checks [OF _ _ assms _ e'] ok by blast
  ultimately show "construct eps opts \<in>
                 {Inl (Error ''range set for x axis makes no sense''),
                  Inl (Error ''range set for y axis makes no sense''),
                  Inl (Error ''range set for z axis search makes no sense'')}"
    by auto
qed


theorem incomplete_or_degenerate_setup_rejected_witness:
  "parse_DIR (DIR options_nobins) = Inr [0, 1] \<and>
   length (NBINS options_nobins) \<noteq> length [0::nat, 1] \<and>
   length (SPACING options_nobins) \<noteq> length [0::nat, 1] \<and>
   construct double_epsilon options_nobins = Inl (Error ''NBINS or SPACING must be set'') \<and>
   parse_DIR (DIR options_degenerate) = Inr [0, 1] \<and>
   YREDUCED options_degenerate \<and>
   \<bar>parse (YLOWER options_degenerate) 0 - parse (YUPPER options_degenerate) 0\<bar> < double_epsilon \<and>
   construct double_epsilon options_degenerate \<in>
     {Inl (Error ''range set for x axis makes no sense''),
      Inl (Error ''range set for y axis makes no sense''),
      Inl (Error ''range set for z axis search makes no sense'')}"
proof -
  have d1: "parse_DIR (DIR options_nobins) = Inr [0, 1]"
    by (simp add: options_nobins_def option_defs parse_DIR_def)
  have n1: "length (NBINS options_nobins) \<noteq> length [0::nat, 1] \<and>
      length (SPACING options_nobins) \<noteq> length [0::nat, 1]"
    by (simp add: options_nobins_def option_defs)
  have o1: "length (ORIGIN options_nobins) = 1 \<and>
      getDependencies options_nobins = [MultiColvarBase dens]"
    by (simp add: options_nobins_def option_defs)
  have d2: "parse_DIR (DIR options_degenerate) = Inr [0, 1]"
    by (simp add: options_degenerate_def option_defs parse_DIR_def)
  have y2: "YREDUCED options_degenerate \<and>
      \<bar>parse (YLOWER options_degenerate) 0 - parse (YUPPER options_degenerate) 0\<bar>
        < double_epsilon"
    by (simp add: options_degenerate_def option_defs parse_def double_epsilon_def)
  have o2: "length (ORIGIN options_degenerate) = 1 \<and>
      getDependencies options_degenerate = [MultiColvarBase dens] \<and>
      (length (NBINS options_degenerate) = length [0::nat, 1]
        \<or> length (SPACING options_degenerate) = length [0::nat, 1]) \<and>
      \<not> FRACTIONAL options_degenerate"
    by (simp add: options_degenerate_def option_defs)
  have m2: "(1::nat) \<in> set [0, 1]"
    by simp
  show ?thesis
    using d1 n1 o1 d2 y2 o2 m2
      incomplete_or_degenerate_setup_rejected [OF d1, of double_epsilon dens]
      incomplete_or_degenerate_setup_rejected [OF d2, of double_epsilon dens]
    by blast
qed

text \<open>
  C9. For every configured axis the entry of \<^verbatim>\<open>PBC=\<close> handed to the grid is \<open>F\<close> exactly
  when the axis is confined (its REDUCED flag is set) and \<open>T\<close> otherwise; a confined axis
  keeps the LOWER and UPPER values of the input line, and is never in fractional mode.
\<close>

theorem periodic_unless_confined:
  assumes "construct eps opts = Inr s"
  shows "confined s = map (\<lambda>d. (d = 0 \<and> XREDUCED opts) \<or> (d = 1 \<and> YREDUCED opts)
                               \<or> (d = 2 \<and> ZREDUCED opts)) (directions s) \<and>
         (\<exists>rest. input (mygrid s) =
            getKeyword opts ''KERNEL'' @ '' '' @ getKeyword opts ''BANDWIDTH'' @ '' PBC=''
            @ comma_separated (map (\<lambda>c. if c then ''F'' else ''T'') (confined s))
            @ '' COMPONENTS='' @ rest) \<and>
         (\<forall>i < length (directions s).
            (confined s ! i \<longrightarrow>
               \<not> fractional s \<and>
               (directions s ! i = 0 \<longrightarrow>
                  cmin s ! i = parse (XLOWER opts) 0 \<and> cmax s ! i = parse (XUPPER opts) 0) \<and>
               (directions s ! i = 1 \<longrightarrow>
                  cmin s ! i = parse (YLOWER opts) 0 \<and> cmax s ! i = parse (YUPPER opts) 0) \<and>
               (directions s ! i = 2 \<longrightarrow>
                  cmin s ! i = parse (ZLOWER opts) 0 \<and> cmax s ! i = parse (ZUPPER opts) 0)))"
proof -
  from assms obtain mc ds cf los his where
    d: "parse_DIR (DIR opts) = Inr ds"
    and a: "parse_axes eps opts ds = Inr (cf, los, his)"
    and s: "s = \<lparr>nomemory = NOMEMORY opts, fractional = FRACTIONAL opts, single_run = True,
          mycolv = mc, nbins = NBINS opts, gspacing = SPACING opts, confined = cf,
          cmin = los, cmax = his, mygrid = make_grid opts mc (make_vstring opts cf ds),
          origin = (\<lambda>i. 0), directions = ds, requested_atoms = ORIGIN opts,
          task_list = [0..<getFullNumberOfTasks mc]\<rparr>"
    by (rule construct_InrE)
  have ds: "ds \<noteq> []"
    using parse_DIR_cases [OF d] by auto
  then have cf: "cf \<noteq> []"
    using parse_axes_length [OF a] by auto
  have 1: "confined s = map (\<lambda>d. (d = 0 \<and> XREDUCED opts) \<or> (d = 1 \<and> YREDUCED opts)
                               \<or> (d = 2 \<and> ZREDUCED opts)) (directions s)"
    using parse_axes_confined [OF a] by (simp add: s)
  have "input (mygrid s) = make_vstring opts cf ds"
    by (simp add: s make_grid_def Let_def setNorm_def setCubeUnits_def new_grid_def)
  then have 2: "\<exists>rest. input (mygrid s) =
            getKeyword opts ''KERNEL'' @ '' '' @ getKeyword opts ''BANDWIDTH'' @ '' PBC=''
            @ comma_separated (map (\<lambda>c. if c then ''F'' else ''T'') (confined s))
            @ '' COMPONENTS='' @ rest"
    by (simp add: make_vstring_def pbc_string_entries [OF cf] s)
  have 3: "confined s ! i \<longrightarrow>
               \<not> fractional s \<and>
               (directions s ! i = 0 \<longrightarrow>
                  cmin s ! i = parse (XLOWER opts) 0 \<and> cmax s ! i = parse (XUPPER opts) 0) \<and>
               (directions s ! i = 1 \<longrightarrow>
                  cmin s ! i = parse (YLOWER opts) 0 \<and> cmax s ! i = parse (YUPPER opts) 0) \<and>
               (directions s ! i = 2 \<longrightarrow>
                  cmin s ! i = parse (ZLOWER opts) 0 \<and> cmax s ! i = parse (ZUPPER opts) 0)"
    if "i < length (directions s)" for i
  proof -
    have "parse_axis eps opts (ds ! i) = Inr (cf ! i, los ! i, his ! i)"
      using parse_axes_nth [OF a] that by (simp add: s)
    from parse_axis_confined(2-5) [OF this] show ?thesis
      by (simp add: s)
  qed
  show ?thesis
    using 1 2 3 by blast
qed


theorem periodic_unless_confined_witness:
  "construct double_epsilon options_xy = Inr density_xy \<and>
   directions density_xy = [0, 1] \<and>
   confined density_xy = [False, True] \<and>
   (\<exists>rest. input (mygrid density_xy) =
      ''KERNEL=gaussian BANDWIDTH=0.05,0.05 PBC=T,F COMPONENTS='' @ rest) \<and>
   cmin density_xy ! 1 = 1 \<and> cmax density_xy ! 1 = 3"
proof -
  have d: "directions density_xy = [0, 1]"
    by (simp add: density_xy_def option_defs constructor_defs)
  have o: "XREDUCED options_xy = False" "YREDUCED options_xy = True"
    "getKeyword options_xy ''KERNEL'' = ''KERNEL=gaussian''"
    "getKeyword options_xy ''BANDWIDTH'' = ''BANDWIDTH=0.05,0.05''"
    "parse (YLOWER options_xy) 0 = 1" "parse (YUPPER options_xy) 0 = 3"
    by (simp_all add: option_defs parse_def)
  note t = periodic_unless_confined [OF construct_options_xy]
  from t have c: "confined density_xy = [False, True]"
    by (simp add: d o)
  from t have i: "\<exists>rest. input (mygrid density_xy) =
      ''KERNEL=gaussian BANDWIDTH=0.05,0.05 PBC=T,F COMPONENTS='' @ rest"
    by (simp add: c o)
  from t have "\<forall>i<2. confined density_xy ! i \<longrightarrow> directions density_xy ! i = 1 \<longrightarrow>
      cmin density_xy ! i = 1 \<and> cmax density_xy ! i = 3"
    by (simp add: d o)
  then have b: "cmin density_xy ! 1 = 1 \<and> cmax density_xy ! 1 = 3"
    by (simp add: c d)
  show ?thesis
    using construct_options_xy d c i b by blast
qed

section \<open>Facts about one accumulation step\<close>

lemma fold_setValue:
  "n \<le> length xs \<Longrightarrow>
     fold (\<lambda>j mv. mv[1 + j := g j]) [0..<n] (w # xs) = w # map g [0..<n] @ drop n xs"
proof (induction n)
  case 0
  then show ?case by simp
next
  case (Suc n)
  then have "drop n xs = xs ! n # drop (Suc n) xs"
    by (simp add: Cons_nth_drop_Suc)
  then show ?case
    using Suc by (simp add: list_update_append)
qed

lemma performTask_values:
  assumes "length myvals = getNumberOfQuantities s"
  shows "performTask s f tindex current myvals =
     (stored f ! current) ! 0
     # map (if fractional s
            then realToScaled f (pbcDistance f (origin s) (getCentralAtomPos f current))
            else pbcDistance f (origin s) (getCentralAtomPos f current)) (directions s)
     @ [(stored f ! current) ! 1]"
proof -
  define n where "n = length (directions s)"
  define fpos where "fpos = (if fractional s
            then realToScaled f (pbcDistance f (origin s) (getCentralAtomPos f current))
            else pbcDistance f (origin s) (getCentralAtomPos f current))"
  obtain a xs where m: "myvals = a # xs" and l: "length xs = n + 1"
    using assms by (cases myvals) (auto simp: getNumberOfQuantities_def n_def)
  obtain z where d: "drop n xs = [z]"
    using l by (metis Cons_nth_drop_Suc add.commute drop_all le_refl lessI plus_1_eq_Suc)
  have "fold (\<lambda>j mv. mv[1 + j := fpos (directions s ! j)]) [0..<n]
          (((stored f ! current) ! 0) # xs)
        = ((stored f ! current) ! 0) # map (\<lambda>j. fpos (directions s ! j)) [0..<n] @ drop n xs"
    using l by (intro fold_setValue) simp
  moreover have "map (\<lambda>j. fpos (directions s ! j)) [0..<n] = map fpos (directions s)"
    unfolding n_def by (rule nth_equalityI) simp_all
  ultimately show ?thesis
    unfolding performTask_def Let_def fpos_def [symmetric] n_def [symmetric]
    by (simp add: m d [unfolded n_def] list_update_append n_def)
qed


lemma new_bounds_result:
  "new_bounds s f =
     (if \<not> fractional s \<and> \<not> isOrthorombic f then Inl (Error nonorthorhombic_message)
      else Inr (map (\<lambda>i. if fractional s then - (1 / 2)
                          else if confined s ! i then cmin s ! i
                          else - (getBox f (directions s ! i) (directions s ! i) / 2))
                  [0..<length (directions s)],
                map (\<lambda>i. if fractional s then 1 / 2
                          else if confined s ! i then cmax s ! i
                          else getBox f (directions s ! i) (directions s ! i) / 2)
                  [0..<length (directions s)]))"
proof -
  have r: "replicate n c = map (\<lambda>i. c) [0..<n]" for n and c :: real
    by (simp add: map_replicate_const)
  show ?thesis
    unfolding new_bounds_def Let_def
    by (auto simp: r intro!: nth_equalityI)
qed

lemma check_box_error:
  "check_box eps s f is = Some e \<Longrightarrow>
     e = Error ''box size should be fixed.  Use FRACTIONAL'' \<or> e = Undefined"
  by (induction "is") (auto simp: Let_def split: if_splits)

lemma check_box_None_iff:
  "check_box eps s f is = None \<longleftrightarrow>
     (\<forall>i \<in> set is. i < length (getMax (mygrid s)) \<and>
        \<bar>2 * getMax (mygrid s) ! i - getBox f (directions s ! i) (directions s ! i)\<bar> \<le> eps)"
  by (induction "is") (auto simp: Let_def)

lemma prepare_grid_fields:
  "prepare_grid eps s f = Inr s1 \<Longrightarrow> s1 = s\<lparr>mygrid := mygrid s1\<rparr>"
  by (auto simp: prepare_grid_def split: if_splits sum.splits prod.splits option.splits)

lemma accumulate_fields:
  "accumulate s f = Inr s' \<Longrightarrow>
     s' = s\<lparr>origin := atom_position f (requested_atoms s ! 0), mygrid := mygrid s'\<rparr>"
  by (auto simp: accumulate_def Let_def runAllTasks_def getPosition_def split: if_splits)

lemma performTask_cong:
  "origin s = origin t \<Longrightarrow> fractional s = fractional t \<Longrightarrow> directions s = directions t \<Longrightarrow>
     performTask s f = performTask t f"
  by (intro ext) (simp add: performTask_def)

lemma accumulate_grid:
  assumes "accumulate s f = Inr s'"
  shows "deposited (mygrid s') = deposited (mygrid s)
           @ map (\<lambda>current. performTask s' f current current
                    (replicate (getNumberOfQuantities s') 0)) [0..<getNumberOfStoredValues f]"
    and "getNorm (mygrid s') = (if isDensity (mycolv s) then getNorm (mygrid s) + 1
                                else getNorm (mygrid s))"
    and "str_min (mygrid s') = str_min (mygrid s)" and "str_max (mygrid s') = str_max (mygrid s)"
    and "grid_nbins (mygrid s') = grid_nbins (mygrid s)"
    and "grid_spacing (mygrid s') = grid_spacing (mygrid s)"
    and "input (mygrid s') = input (mygrid s)"
    and "getNumberOfStoredValues f \<le> length (task_list s)"
proof -
  define s3 where "s3 = (if isDensity (mycolv s)
      then s\<lparr>origin := getPosition s f 0,
             mygrid := setNorm (1 + getNorm (mygrid s)) (mygrid s)\<rparr>
      else s\<lparr>origin := getPosition s f 0\<rparr>)"
  have s': "s' = runAllTasks s3 f" and le: "getNumberOfStoredValues f \<le> length (task_list s)"
    using assms by (auto simp: accumulate_def Let_def s3_def split: if_splits)
  have "performTask s' f = performTask s3 f"
    by (rule performTask_cong) (simp_all add: s' runAllTasks_def)
  moreover have "getNumberOfQuantities s' = getNumberOfQuantities s3"
    by (simp add: s' runAllTasks_def getNumberOfQuantities_def)
  ultimately show "deposited (mygrid s') = deposited (mygrid s)
           @ map (\<lambda>current. performTask s' f current current
                    (replicate (getNumberOfQuantities s') 0)) [0..<getNumberOfStoredValues f]"
    by (simp add: s' runAllTasks_def) (simp add: s3_def setNorm_def)
  show "getNorm (mygrid s') = (if isDensity (mycolv s) then getNorm (mygrid s) + 1
                                else getNorm (mygrid s))"
    by (simp add: s' runAllTasks_def s3_def setNorm_def getNorm_def)
  show "str_min (mygrid s') = str_min (mygrid s)" "str_max (mygrid s') = str_max (mygrid s)"
    "grid_nbins (mygrid s') = grid_nbins (mygrid s)"
    "grid_spacing (mygrid s') = grid_spacing (mygrid s)"
    "input (mygrid s') = input (mygrid s)"
    by (simp_all add: s' runAllTasks_def s3_def setNorm_def)
  show "getNumberOfStoredValues f \<le> length (task_list s)"
    by (rule le)
qed

lemma update_skip:
  "\<not> single_run s \<and> getStep f = 0 \<Longrightarrow> update eps s f = Inr s"
  by (simp add: update_def)

lemma update_processed:
  "single_run s \<or> getStep f \<noteq> 0 \<Longrightarrow>
     update eps s f = (case prepare_grid eps s f of Inl e \<Rightarrow> Inl e | Inr s1 \<Rightarrow> accumulate s1 f)"
  by (auto simp: update_def)

lemma update_fields:
  assumes "update eps s f = Inr s'"
  shows "s' = s\<lparr>origin := origin s', mygrid := mygrid s'\<rparr>"
proof (cases "\<not> single_run s \<and> getStep f = 0")
  case True
  then show ?thesis
    using assms by (simp add: update_def)
next
  case False
  then obtain s1 where p: "prepare_grid eps s f = Inr s1" and a: "accumulate s1 f = Inr s'"
    using assms by (auto simp: update_def split: sum.splits)
  show ?thesis
    using prepare_grid_fields [OF p] accumulate_fields [OF a]
    by (metis (no_types) MultiColvarDensity.surjective MultiColvarDensity.update_convs(10)
        MultiColvarDensity.update_convs(11))
qed


lemma prepare_grid_kept:
  assumes "prepare_grid eps s f = Inr s1"
  shows "deposited (mygrid s1) = (if wasreset f then [] else deposited (mygrid s))"
    and "getNorm (mygrid s1) = (if wasreset f then 0 else getNorm (mygrid s))"
  using assms
  by (auto simp: prepare_grid_def setBounds_def clear_def getNorm_def
      split: if_splits sum.splits prod.splits option.splits)

lemma update_processed_Inr:
  assumes "update eps s f = Inr s'" "single_run s \<or> getStep f \<noteq> 0"
  obtains s1 where "prepare_grid eps s f = Inr s1" "accumulate s1 f = Inr s'"
  using assms by (auto simp: update_def split: sum.splits)

lemma accumulate_error: "accumulate s f = Inl e \<Longrightarrow> e = Undefined"
  by (auto simp: accumulate_def Let_def split: if_splits)

lemma nonorthorhombic_message_distinct:
  "nonorthorhombic_message \<noteq> ''box size should be fixed.  Use FRACTIONAL''"
  by (simp add: nonorthorhombic_message_def)

lemma update_same_setup:
  assumes "update eps s f = Inr s'"
  shows "single_run s' = single_run s" and "mycolv s' = mycolv s"
proof -
  have "s' = s\<lparr>origin := origin s', mygrid := mygrid s'\<rparr>"
    using assms by (rule update_fields)
  then show "single_run s' = single_run s" and "mycolv s' = mycolv s"
    by (metis MultiColvarDensity.select_convs(3) MultiColvarDensity.surjective
        MultiColvarDensity.update_convs(10,11),
        metis MultiColvarDensity.select_convs(4) MultiColvarDensity.surjective
        MultiColvarDensity.update_convs(10,11))
qed

lemma update_norm:
  assumes "update eps s f = Inr s'" and "isDensity (mycolv s)"
  shows "getNorm (mygrid s') =
     (if \<not> single_run s \<and> getStep f = 0 then getNorm (mygrid s)
      else if wasreset f then 1 else getNorm (mygrid s) + 1)"
proof (cases "\<not> single_run s \<and> getStep f = 0")
  case True
  then show ?thesis
    using assms(1) by (simp add: update_def)
next
  case False
  then obtain s1 where p: "prepare_grid eps s f = Inr s1" and c: "accumulate s1 f = Inr s'"
    using assms(1) by (auto elim: update_processed_Inr)
  have "mycolv s1 = mycolv s"
    using prepare_grid_fields [OF p]
    by (metis MultiColvarDensity.select_convs(4) MultiColvarDensity.surjective
        MultiColvarDensity.update_convs(10))
  then show ?thesis
    using False accumulate_grid(2) [OF c] prepare_grid_kept(2) [OF p] assms(2)
    by (cases "wasreset f") auto
qed

lemma run_frames_norm:
  assumes "isDensity (mycolv s)" and "\<forall>f \<in> set fs. \<not> wasreset f"
    and "run_frames eps s fs = Inr s'"
  shows "getNorm (mygrid s') =
     getNorm (mygrid s) + real (length (filter (\<lambda>f. single_run s \<or> getStep f \<noteq> 0) fs))"
  using assms
proof (induction fs arbitrary: s)
  case Nil
  then show ?case by simp
next
  case (Cons f fs)
  then obtain s1 where u: "update eps s f = Inr s1" and r: "run_frames eps s1 fs = Inr s'"
    by (auto split: sum.splits)
  have k: "single_run s1 = single_run s" "mycolv s1 = mycolv s"
    using update_same_setup [OF u] by simp_all
  have "getNorm (mygrid s') = getNorm (mygrid s1)
      + real (length (filter (\<lambda>f. single_run s1 \<or> getStep f \<noteq> 0) fs))"
    using Cons.IH [OF _ _ r] Cons.prems k by simp
  moreover have "getNorm (mygrid s1) =
      (if \<not> single_run s \<and> getStep f = 0 then getNorm (mygrid s) else getNorm (mygrid s) + 1)"
    using update_norm [OF u Cons.prems(1)] Cons.prems(2) by simp
  ultimately show ?case
    using k by auto
qed

lemmas example_defs = option_defs constructor_defs density_xy_def density_x_def
  density_fractional_def frame_cubic_def frame_sheared_def frame_next_def cubic_box_def
  sheared_box_def update_def prepare_grid_def accumulate_def new_bounds_def Let_def
  runAllTasks_def performTask_def getNumberOfQuantities_def getNumberOfStoredValues_def
  getPosition_def setBounds_def clear_def getNorm_def getMax_def

text \<open>The invariant holds after the constructor and is kept by every later call.\<close>

lemma update_well_formed:
  assumes "update eps s f = Inr s'" and "well_formed s"
  shows "well_formed s'"
proof -
  have "s' = s\<lparr>origin := origin s', mygrid := mygrid s'\<rparr>"
    using assms(1) by (rule update_fields)
  then have "well_formed s' = well_formed (s\<lparr>origin := origin s', mygrid := mygrid s'\<rparr>)"
    by (rule arg_cong)
  then show ?thesis
    using assms(2) by (simp add: well_formed_def)
qed

lemma setAnalysisStride_well_formed:
  "well_formed (setAnalysisStride use_all astride s) = well_formed s"
  by (simp add: setAnalysisStride_def well_formed_def)

lemma run_frames_well_formed:
  "run_frames eps s fs = Inr s' \<Longrightarrow> well_formed s \<Longrightarrow> well_formed s'"
proof (induction fs arbitrary: s)
  case Nil
  then show ?case by simp
next
  case (Cons f fs)
  then show ?case
    by (auto split: sum.splits dest: update_well_formed)
qed

section \<open>Claims about the accumulation step\<close>

text \<open>
  C1, as the code has it. The specification lets a frame fail on a cell that is not
  orthorhombic whenever fractional coordinates are requested; line 298 makes the test
  only when \<^verbatim>\<open>FRACTIONAL\<close> is absent, and only on a frame that binds the grid. In
  fractional mode a sheared cell is accepted and bound to \<open>[-0.5, 0.5]\<close>.
\<close>

theorem fractional_accepts_sheared_cell:
  "fractional density_fractional \<and> \<not> isOrthorombic frame_sheared \<and> wasreset frame_sheared \<and>
   \<not> isl (update double_epsilon density_fractional frame_sheared) \<and>
   str_min (mygrid (projr (update double_epsilon density_fractional frame_sheared))) = [- 0.5] \<and>
   str_max (mygrid (projr (update double_epsilon density_fractional frame_sheared))) = [0.5] \<and>
   deposited (mygrid (projr (update double_epsilon density_fractional frame_sheared)))
     = [[1, 1 / 10, 7], [1, 1 / 5, 9]]"
  by (simp add: example_defs)

text \<open>
  C1, amended. \<^verbatim>\<open>update\<close> stops with the message of line 300 exactly on a processed frame
  whose grid was reset, without \<^verbatim>\<open>FRACTIONAL\<close>, on a cell that is not orthorhombic.
\<close>

theorem nonorthorhombic_rejected_when_binding_without_fractional:
  "update eps s f = Inl (Error nonorthorhombic_message) \<longleftrightarrow>
     (single_run s \<or> getStep f \<noteq> 0) \<and> wasreset f \<and> \<not> fractional s \<and> \<not> isOrthorombic f"
proof
  assume l: "update eps s f = Inl (Error nonorthorhombic_message)"
  then have p: "single_run s \<or> getStep f \<noteq> 0"
    by (auto simp: update_def split: if_splits)
  have "prepare_grid eps s f = Inl (Error nonorthorhombic_message)"
  proof (cases "prepare_grid eps s f")
    case (Inl e)
    then show ?thesis
      using l p by (simp add: update_processed)
  next
    case (Inr s1)
    then have "accumulate s1 f = Inl (Error nonorthorhombic_message)"
      using l p by (simp add: update_processed)
    then show ?thesis
      using accumulate_error by blast
  qed
  then have "wasreset f \<and> \<not> fractional s \<and> \<not> isOrthorombic f"
    using nonorthorhombic_message_distinct
    by (auto simp: prepare_grid_def new_bounds_result
        split: if_splits option.splits dest: check_box_error)
  with p show "(single_run s \<or> getStep f \<noteq> 0) \<and> wasreset f \<and> \<not> fractional s
      \<and> \<not> isOrthorombic f"
    by simp
next
  assume "(single_run s \<or> getStep f \<noteq> 0) \<and> wasreset f \<and> \<not> fractional s
      \<and> \<not> isOrthorombic f"
  then show "update eps s f = Inl (Error nonorthorhombic_message)"
    by (auto simp: update_def prepare_grid_def new_bounds_result)
qed

theorem nonorthorhombic_rejected_when_binding_without_fractional_witness:
  "single_run density_x \<and> wasreset frame_sheared \<and> \<not> fractional density_x \<and>
   \<not> isOrthorombic frame_sheared \<and>
   update double_epsilon density_x frame_sheared = Inl (Error nonorthorhombic_message) \<and>
   fractional density_fractional \<and>
   update double_epsilon density_fractional frame_sheared \<noteq> Inl (Error nonorthorhombic_message)"
proof -
  have h: "single_run density_x" "wasreset frame_sheared" "\<not> fractional density_x"
    "\<not> isOrthorombic frame_sheared" "fractional density_fractional"
    by (simp_all add: density_x_def density_fractional_def option_defs constructor_defs
        frame_sheared_def frame_cubic_def)
  show ?thesis
    using h
      nonorthorhombic_rejected_when_binding_without_fractional
        [of double_epsilon density_x frame_sheared]
      nonorthorhombic_rejected_when_binding_without_fractional
        [of double_epsilon density_fractional frame_sheared]
    by blast
qed

text \<open>
  C2, evaluated. On a frame without reset the loop of lines 316-319 compares twice the
  upper bound the grid holds with the box on every axis. With \<^verbatim>\<open>FRACTIONAL\<close> the bound is
  0.5, with a confined axis it is the upper confinement: a second frame with the very same
  cubic box of side 10 fails with "box size should be fixed.  Use FRACTIONAL".
\<close>

theorem box_check_hits_fractional_and_confined_axes:
  "getBox frame_next = getBox frame_cubic \<and>
   fractional density_fractional \<and>
   run_frames double_epsilon density_fractional [frame_cubic, frame_next]
     = Inl (Error ''box size should be fixed.  Use FRACTIONAL'') \<and>
   confined density_xy = [False, True] \<and>
   run_frames double_epsilon density_xy [frame_cubic, frame_next]
     = Inl (Error ''box size should be fixed.  Use FRACTIONAL'')"
  by (simp add: example_defs)


text \<open>
  C3. In density mode the constructor sets the norm to 0; a processed frame without reset
  adds exactly 1 to it, whatever the number of stored values, and the tasks run on the grid
  that already has the new norm; after a run in which no frame but possibly the first
  signals a reset, the norm is the number of processed frames.
\<close>

theorem density_norm_counts_frames:
  assumes "isDensity (mycolv s)"
  shows "(construct eps opts = Inr s \<longrightarrow> getNorm (mygrid s) = 0) \<and>
         ((single_run s \<or> getStep f \<noteq> 0) \<and> \<not> wasreset f \<and> update eps s f = Inr s' \<longrightarrow>
            getNorm (mygrid s') = getNorm (mygrid s) + 1 \<and>
            (\<exists>s3. s' = runAllTasks s3 f \<and> getNorm (mygrid s3) = getNorm (mygrid s) + 1)) \<and>
         (getNorm (mygrid s) = 0 \<and> (\<forall>g \<in> set (tl fs). \<not> wasreset g) \<and>
          run_frames eps s fs = Inr s'' \<longrightarrow>
            getNorm (mygrid s'') =
              real (length (filter (\<lambda>g. single_run s \<or> getStep g \<noteq> 0) fs)))"
proof (intro conjI impI)
  assume "construct eps opts = Inr s"
  then show "getNorm (mygrid s) = 0"
    using assms
    by (auto elim!: construct_InrE
        simp: make_grid_def Let_def setNorm_def setCubeUnits_def new_grid_def getNorm_def)
next
  assume h: "(single_run s \<or> getStep f \<noteq> 0) \<and> \<not> wasreset f \<and> update eps s f = Inr s'"
  then show "getNorm (mygrid s') = getNorm (mygrid s) + 1"
    using update_norm [of eps s f s'] assms by auto
  from h obtain s1 where p: "prepare_grid eps s f = Inr s1" and c: "accumulate s1 f = Inr s'"
    by (auto elim: update_processed_Inr)
  have s1: "s1 = s"
    using p h by (auto simp: prepare_grid_def split: option.splits)
  define s3 where "s3 = s\<lparr>origin := getPosition s f 0,
      mygrid := setNorm (1 + getNorm (mygrid s)) (mygrid s)\<rparr>"
  have "s' = runAllTasks s3 f"
    using c assms by (auto simp: s1 accumulate_def Let_def s3_def split: if_splits)
  moreover have "getNorm (mygrid s3) = getNorm (mygrid s) + 1"
    by (simp add: s3_def setNorm_def getNorm_def)
  ultimately show "\<exists>s3. s' = runAllTasks s3 f \<and> getNorm (mygrid s3) = getNorm (mygrid s) + 1"
    by blast
next
  assume h: "getNorm (mygrid s) = 0 \<and> (\<forall>g \<in> set (tl fs). \<not> wasreset g) \<and>
          run_frames eps s fs = Inr s''"
  show "getNorm (mygrid s'') =
              real (length (filter (\<lambda>g. single_run s \<or> getStep g \<noteq> 0) fs))"
  proof (cases fs)
    case Nil
    then show ?thesis
      using h by auto
  next
    case (Cons g gs)
    then obtain s1 where u: "update eps s g = Inr s1" and r: "run_frames eps s1 gs = Inr s''"
      using h by (auto split: sum.splits)
    have k: "single_run s1 = single_run s" "mycolv s1 = mycolv s"
      using update_same_setup [OF u] by simp_all
    have "getNorm (mygrid s'') = getNorm (mygrid s1)
        + real (length (filter (\<lambda>g. single_run s1 \<or> getStep g \<noteq> 0) gs))"
      using run_frames_norm [OF _ _ r] assms k h Cons by simp
    moreover have "getNorm (mygrid s1) =
        (if \<not> single_run s \<and> getStep g = 0 then 0 else 1)"
      using update_norm [OF u assms] h by simp
    ultimately show ?thesis
      using k Cons by auto
  qed
qed

theorem density_norm_counts_frames_witness:
  "isDensity (mycolv density_x) \<and>
   construct double_epsilon options_x = Inr density_x \<and> getNorm (mygrid density_x) = 0 \<and>
   \<not> wasreset frame_next \<and>
   (\<exists>s''. run_frames double_epsilon density_x [frame_cubic, frame_next, frame_next] = Inr s'' \<and>
      getNorm (mygrid s'') = 3)"
proof -
  have d: "isDensity (mycolv density_x)" "single_run density_x"
    by (simp_all add: density_x_def option_defs constructor_defs)
  have c: "construct double_epsilon options_x = Inr density_x"
    by (rule construct_options_x)
  have w: "\<not> wasreset frame_next"
    by (simp add: frame_next_def)
  obtain s'' where
    r: "run_frames double_epsilon density_x [frame_cubic, frame_next, frame_next] = Inr s''"
    by (simp add: example_defs)
  note t = density_norm_counts_frames [OF d(1), of double_epsilon options_x _ _
      "[frame_cubic, frame_next, frame_next]" s'']
  have z: "getNorm (mygrid density_x) = 0"
    using t c by blast
  have "getNorm (mygrid s'') = 3"
    using t z w r d(2) by simp
  then show ?thesis
    using d c z w r by blast
qed

text \<open>
  C4, as the code has it. The specification skips the step-0 call in a single aggregate
  run; in the code the frame of step 0 is accumulated when \<open>single_run\<close> holds, and it is
  the windowed action (\<open>single_run\<close> false) that returns at once.
\<close>

theorem initial_step_processed_in_single_run:
  "single_run density_x \<and> getStep frame_cubic = 0 \<and> deposited (mygrid density_x) = [] \<and>
   update double_epsilon density_x frame_cubic \<noteq> Inr density_x \<and>
   \<not> isl (update double_epsilon density_x frame_cubic) \<and>
   deposited (mygrid (projr (update double_epsilon density_x frame_cubic)))
     = [[1, 1, 7], [1, 2, 9]] \<and>
   \<not> single_run density_windowed \<and>
   update double_epsilon density_windowed frame_cubic = Inr density_windowed"
proof -
  have 1: "single_run density_x \<and> getStep frame_cubic = 0 \<and> deposited (mygrid density_x) = []"
    by (simp add: example_defs)
  have 2: "\<not> isl (update double_epsilon density_x frame_cubic) \<and>
      deposited (mygrid (projr (update double_epsilon density_x frame_cubic)))
        = [[1, 1, 7], [1, 2, 9]]"
    by (simp add: example_defs)
  then have 3: "update double_epsilon density_x frame_cubic \<noteq> Inr density_x"
    using 1 by auto
  have 4: "\<not> single_run density_windowed"
    by (simp add: density_windowed_def setAnalysisStride_def)
  then have 5: "update double_epsilon density_windowed frame_cubic = Inr density_windowed"
    by (simp add: update_def frame_cubic_def)
  show ?thesis
    using 1 2 3 4 5 by blast
qed

text \<open>
  C4, amended. \<^verbatim>\<open>update\<close> returns without any change exactly when \<open>single_run\<close> is false
  and the step is 0; in every other case it prepares the grid and accumulates the frame,
  so a successful call adds one value vector per stored value.
\<close>

theorem initial_step_skipped_only_when_windowed:
  "(\<not> single_run s \<and> getStep f = 0 \<longrightarrow> update eps s f = Inr s) \<and>
   (single_run s \<or> getStep f \<noteq> 0 \<longrightarrow>
      update eps s f = (case prepare_grid eps s f of Inl e \<Rightarrow> Inl e
                        | Inr s1 \<Rightarrow> accumulate s1 f) \<and>
      (update eps s f = Inr s' \<longrightarrow>
         length (deposited (mygrid s')) =
           (if wasreset f then 0 else length (deposited (mygrid s)))
             + getNumberOfStoredValues f))"
proof (intro conjI impI)
  assume "\<not> single_run s \<and> getStep f = 0"
  then show "update eps s f = Inr s"
    by (rule update_skip)
next
  assume "single_run s \<or> getStep f \<noteq> 0"
  then show "update eps s f = (case prepare_grid eps s f of Inl e \<Rightarrow> Inl e
                        | Inr s1 \<Rightarrow> accumulate s1 f)"
    by (rule update_processed)
next
  assume "single_run s \<or> getStep f \<noteq> 0" and "update eps s f = Inr s'"
  then obtain s1 where p: "prepare_grid eps s f = Inr s1" and c: "accumulate s1 f = Inr s'"
    by (auto elim: update_processed_Inr)
  show "length (deposited (mygrid s')) =
           (if wasreset f then 0 else length (deposited (mygrid s)))
             + getNumberOfStoredValues f"
    using accumulate_grid(1) [OF c] prepare_grid_kept(1) [OF p] by simp
qed

theorem initial_step_skipped_only_when_windowed_witness:
  "\<not> single_run density_windowed \<and> getStep frame_cubic = 0 \<and>
   update double_epsilon density_windowed frame_cubic = Inr density_windowed \<and>
   single_run density_x \<and>
   (\<exists>s'. update double_epsilon density_x frame_cubic = Inr s' \<and>
      length (deposited (mygrid s')) = 2)"
proof -
  have h: "\<not> single_run density_windowed" "getStep frame_cubic = 0" "single_run density_x"
    "wasreset frame_cubic" "getNumberOfStoredValues frame_cubic = 2"
    by (simp_all add: density_windowed_def setAnalysisStride_def frame_cubic_def density_x_def
        option_defs constructor_defs getNumberOfStoredValues_def)
  obtain s' where u: "update double_epsilon density_x frame_cubic = Inr s'"
    by (simp add: example_defs)
  note a = initial_step_skipped_only_when_windowed
    [of density_windowed frame_cubic double_epsilon]
  note b = initial_step_skipped_only_when_windowed
    [of density_x frame_cubic double_epsilon s']
  have "length (deposited (mygrid s')) = 2"
    using b u h by simp
  then show ?thesis
    using a h u by blast
qed


text \<open>
  C7. On a processed frame whose grid was reset (and, without \<^verbatim>\<open>FRACTIONAL\<close>, whose cell is
  orthorhombic) the grid is cleared and bound to: \<open>[-0.5, 0.5]\<close> on every axis in fractional
  mode; otherwise \<open>[cmin, cmax]\<close> on a confined axis and minus and plus half the diagonal
  entry of the box on any other; with the bin counts and spacing of the input line.
\<close>

theorem reset_grid_bounds:
  assumes "well_formed s" and "single_run s \<or> getStep f \<noteq> 0" and "wasreset f"
    and "fractional s \<or> isOrthorombic f"
    and "getNumberOfStoredValues f \<le> length (task_list s)"
  shows "\<exists>s'. update eps s f = Inr s' \<and>
           accumulate
             (s\<lparr>mygrid := setBounds (str_min (mygrid s')) (str_max (mygrid s'))
                             (nbins s) (gspacing s) (clear (mygrid s))\<rparr>) f = Inr s' \<and>
           str_min (mygrid s') =
             map (\<lambda>i. if fractional s then - 0.5
                       else if confined s ! i then cmin s ! i
                       else - (getBox f (directions s ! i) (directions s ! i) / 2))
               [0..<length (directions s)] \<and>
           str_max (mygrid s') =
             map (\<lambda>i. if fractional s then 0.5
                       else if confined s ! i then cmax s ! i
                       else getBox f (directions s ! i) (directions s ! i) / 2)
               [0..<length (directions s)] \<and>
           grid_nbins (mygrid s') = nbins s \<and> grid_spacing (mygrid s') = gspacing s"
proof -
  define gmin where "gmin = map (\<lambda>i. if fractional s then - (1 / 2)
                          else if confined s ! i then cmin s ! i
                          else - (getBox f (directions s ! i) (directions s ! i) / 2))
                  [0..<length (directions s)]"
  define gmax where "gmax = map (\<lambda>i. if fractional s then 1 / 2
                          else if confined s ! i then cmax s ! i
                          else getBox f (directions s ! i) (directions s ! i) / 2)
                  [0..<length (directions s)]"
  define s1 where
    "s1 = s\<lparr>mygrid := setBounds gmin gmax (nbins s) (gspacing s) (clear (mygrid s))\<rparr>"
  have nb: "new_bounds s f = Inr (gmin, gmax)"
    using assms(4) by (auto simp: new_bounds_result gmin_def gmax_def)
  have p: "prepare_grid eps s f = Inr s1"
    using assms(3) by (simp add: prepare_grid_def nb s1_def)
  have "\<not> length (task_list s1) < getNumberOfStoredValues f"
    using assms(5) by (simp add: s1_def)
  then obtain s' where a: "accumulate s1 f = Inr s'"
    by (simp add: accumulate_def Let_def)
  have u: "update eps s f = Inr s'"
    using assms(2) by (simp add: update_processed p a)
  have g: "str_min (mygrid s') = gmin" "str_max (mygrid s') = gmax"
    "grid_nbins (mygrid s') = nbins s" "grid_spacing (mygrid s') = gspacing s"
    using accumulate_grid(3-6) [OF a] by (simp_all add: s1_def setBounds_def clear_def)
  show ?thesis
    using u a g unfolding s1_def gmin_def gmax_def by simp
qed


theorem reset_grid_bounds_witness:
  "well_formed density_xy \<and> single_run density_xy \<and> wasreset frame_cubic \<and>
   isOrthorombic frame_cubic \<and> confined density_xy = [False, True] \<and>
   getNumberOfStoredValues frame_cubic \<le> length (task_list density_xy) \<and>
   (\<exists>s'. update double_epsilon density_xy frame_cubic = Inr s' \<and>
      str_min (mygrid s') = [- 5, 1] \<and> str_max (mygrid s') = [5, 3] \<and>
      grid_nbins (mygrid s') = [10, 10])"
proof -
  have w: "well_formed density_xy"
    using construct_options_xy by (rule construct_well_formed)
  have h: "single_run density_xy \<or> getStep frame_cubic \<noteq> 0" "wasreset frame_cubic"
    "fractional density_xy \<or> isOrthorombic frame_cubic"
    "getNumberOfStoredValues frame_cubic \<le> length (task_list density_xy)"
    by (simp_all add: density_xy_def option_defs constructor_defs frame_cubic_def
        getNumberOfStoredValues_def)
  have v: "single_run density_xy" "isOrthorombic frame_cubic" "\<not> fractional density_xy"
    "confined density_xy = [False, True]" "directions density_xy = [0, 1]"
    "cmin density_xy = [0, 1]" "cmax density_xy = [0, 3]" "nbins density_xy = [10, 10]"
    "getBox frame_cubic 0 0 = 10"
    by (simp_all add: density_xy_def option_defs constructor_defs frame_cubic_def cubic_box_def)
  have u: "[0..<2] = [0, 1]"
    by (simp add: upt_rec)
  from reset_grid_bounds [OF w h, of double_epsilon]
  obtain s' where s': "update double_epsilon density_xy frame_cubic = Inr s'"
    "str_min (mygrid s') =
             map (\<lambda>i. if fractional density_xy then - 0.5
                       else if confined density_xy ! i then cmin density_xy ! i
                       else - (getBox frame_cubic (directions density_xy ! i) (directions density_xy ! i) / 2))
               [0..<length (directions density_xy)]"
     "str_max (mygrid s') =
             map (\<lambda>i. if fractional density_xy then 0.5
                       else if confined density_xy ! i then cmax density_xy ! i
                       else getBox frame_cubic (directions density_xy ! i) (directions density_xy ! i) / 2)
               [0..<length (directions density_xy)]"
      "grid_nbins (mygrid s') = nbins density_xy"
    by blast
  have "str_min (mygrid s') = [- 5, 1]"
    unfolding s'(2) by (simp add: v u)
  moreover have "str_max (mygrid s') = [5, 3]"
    unfolding s'(3) by (simp add: v u)
  ultimately show ?thesis
    using w h v s'(1,4) by auto
qed

text \<open>
  C8. The value vector of a task has \<open>number of axes + 2\<close> entries: the weight
  \<open>cvals[0]\<close> first, then the coordinates of the configured axes, in their order, of the
  displacement from the origin (scaled by the cell in fractional mode), then the value
  \<open>cvals[1]\<close> last. The axes are one, two or three of x, y, z.
\<close>

theorem task_values_are_configured_axes:
  assumes "well_formed s" and "length myvals = getNumberOfQuantities s"
    and "current < getNumberOfStoredValues f" and "2 \<le> length (stored f ! current)"
  shows "performTask s f tindex current myvals =
           (stored f ! current) ! 0
           # map (if fractional s
                  then realToScaled f (pbcDistance f (origin s) (getCentralAtomPos f current))
                  else pbcDistance f (origin s) (getCentralAtomPos f current)) (directions s)
           @ [(stored f ! current) ! 1] \<and>
         length (performTask s f tindex current myvals) = length (directions s) + 2 \<and>
         getNumberOfQuantities s = length (directions s) + 2 \<and>
         performTask s f tindex current myvals ! 0 = (stored f ! current) ! 0 \<and>
         performTask s f tindex current myvals ! (length (directions s) + 1)
           = (stored f ! current) ! 1 \<and>
         length (directions s) \<in> {1, 2, 3} \<and> set (directions s) \<subseteq> {0, 1, 2} \<and>
         sorted (directions s) \<and> distinct (directions s)"
proof -
  have d: "directions s \<in> {[0], [1], [2], [0, 1], [0, 2], [1, 2], [0, 1, 2]}"
    using assms(1) by (simp add: well_formed_def)
  have v: "performTask s f tindex current myvals =
           (stored f ! current) ! 0
           # map (if fractional s
                  then realToScaled f (pbcDistance f (origin s) (getCentralAtomPos f current))
                  else pbcDistance f (origin s) (getCentralAtomPos f current)) (directions s)
           @ [(stored f ! current) ! 1]"
    using assms(2) by (rule performTask_values)
  have "length (directions s) \<in> {1, 2, 3} \<and> set (directions s) \<subseteq> {0, 1, 2} \<and>
         sorted (directions s) \<and> distinct (directions s)"
    using d by auto
  moreover have "length (performTask s f tindex current myvals) = length (directions s) + 2"
    by (simp add: v)
  moreover have "performTask s f tindex current myvals ! 0 = (stored f ! current) ! 0"
    by (simp add: v)
  moreover have "performTask s f tindex current myvals ! (length (directions s) + 1)
           = (stored f ! current) ! 1"
    by (simp add: v nth_append)
  ultimately show ?thesis
    using v by (simp add: getNumberOfQuantities_def)
qed

theorem task_values_are_configured_axes_witness:
  "well_formed density_xy \<and>
   length (replicate 4 (0::real)) = getNumberOfQuantities density_xy \<and>
   1 < getNumberOfStoredValues frame_cubic \<and> 2 \<le> length (stored frame_cubic ! 1) \<and>
   performTask density_xy frame_cubic 1 1 (replicate 4 0) = [1, 3, 4, 9]"
proof -
  have w: "well_formed density_xy"
    using construct_options_xy by (rule construct_well_formed)
  have h: "length (replicate 4 (0::real)) = getNumberOfQuantities density_xy"
    "1 < getNumberOfStoredValues frame_cubic" "2 \<le> length (stored frame_cubic ! 1)"
    by (simp_all add: density_xy_def option_defs constructor_defs frame_cubic_def
        getNumberOfStoredValues_def getNumberOfQuantities_def)
  have v: "\<not> fractional density_xy" "directions density_xy = [0, 1]"
    "origin density_xy = (\<lambda>i. 0)"
    by (simp_all add: density_xy_def option_defs constructor_defs)
  have "performTask density_xy frame_cubic 1 1 (replicate 4 0) = [1, 3, 4, 9]"
    using task_values_are_configured_axes [OF w h, of 1]
    by (simp add: v frame_cubic_def)
  then show ?thesis
    using w h by blast
qed

text \<open>
  C10. The constructor fails unless \<^verbatim>\<open>ORIGIN\<close> names exactly one atom; every processed
  \<^verbatim>\<open>update\<close> reads the origin again as the position of that atom in the current frame
  and maps the frame's particles with it.
\<close>

theorem origin_is_single_atom_reread:
  "(length (ORIGIN opts) \<noteq> 1 \<longrightarrow>
      construct eps opts = Inl (Error ''should only be one atom specified'')) \<and>
   (construct eps opts = Inr s0 \<longrightarrow> (\<exists>a. ORIGIN opts = [a] \<and> requested_atoms s0 = [a])) \<and>
   (requested_atoms s = [a] \<and> (single_run s \<or> getStep f \<noteq> 0) \<and> update eps s f = Inr s' \<longrightarrow>
      origin s' = atom_position f a \<and> requested_atoms s' = [a] \<and>
      deposited (mygrid s') = (if wasreset f then [] else deposited (mygrid s))
        @ map (\<lambda>current. performTask s' f current current
                 (replicate (getNumberOfQuantities s') 0)) [0..<getNumberOfStoredValues f])"
proof (intro conjI impI)
  assume "length (ORIGIN opts) \<noteq> 1"
  then show "construct eps opts = Inl (Error ''should only be one atom specified'')"
    by (simp add: construct_def)
next
  assume "construct eps opts = Inr s0"
  then have "length (ORIGIN opts) = 1" "requested_atoms s0 = ORIGIN opts"
    by (auto elim!: construct_InrE)
  then show "\<exists>a. ORIGIN opts = [a] \<and> requested_atoms s0 = [a]"
    by (cases "ORIGIN opts") auto
next
  assume h: "requested_atoms s = [a] \<and> (single_run s \<or> getStep f \<noteq> 0) \<and> update eps s f = Inr s'"
  then obtain s1 where p: "prepare_grid eps s f = Inr s1" and c: "accumulate s1 f = Inr s'"
    by (auto elim: update_processed_Inr)
  have r1: "requested_atoms s1 = [a]"
    using prepare_grid_fields [OF p] h by (metis MultiColvarDensity.select_convs(13)
        MultiColvarDensity.surjective MultiColvarDensity.update_convs(10))
  show "origin s' = atom_position f a"
    using accumulate_fields [OF c] r1
    by (metis MultiColvarDensity.select_convs(11) MultiColvarDensity.surjective
        MultiColvarDensity.update_convs(10,11) nth_Cons_0)
  show "requested_atoms s' = [a]"
    using accumulate_fields [OF c] r1
    by (metis MultiColvarDensity.select_convs(13) MultiColvarDensity.surjective
        MultiColvarDensity.update_convs(10,11))
  show "deposited (mygrid s') = (if wasreset f then [] else deposited (mygrid s))
        @ map (\<lambda>current. performTask s' f current current
                 (replicate (getNumberOfQuantities s') 0)) [0..<getNumberOfStoredValues f]"
    using accumulate_grid(1) [OF c] prepare_grid_kept(1) [OF p] by simp
qed

theorem origin_is_single_atom_reread_witness:
  "length (ORIGIN options_two_origins) \<noteq> 1 \<and>
   construct double_epsilon options_two_origins
     = Inl (Error ''should only be one atom specified'') \<and>
   construct double_epsilon options_x = Inr density_x \<and>
   ORIGIN options_x = [1] \<and> requested_atoms density_x = [1] \<and> single_run density_x \<and>
   (\<exists>s'. update double_epsilon density_x frame_cubic = Inr s' \<and>
      origin s' = atom_position frame_cubic 1 \<and> origin s' 0 = 1 \<and> requested_atoms s' = [1])"
proof -
  have n: "length (ORIGIN options_two_origins) \<noteq> 1"
    by (simp add: options_two_origins_def)
  have o: "ORIGIN options_x = [1]"
    by (simp add: option_defs)
  have c: "construct double_epsilon options_x = Inr density_x"
    by (rule construct_options_x)
  have p: "single_run density_x"
    by (simp add: density_x_def option_defs constructor_defs)
  obtain s' where u: "update double_epsilon density_x frame_cubic = Inr s'"
    by (simp add: example_defs)
  note t = origin_is_single_atom_reread
    [of options_x double_epsilon density_x density_x 1 frame_cubic s']
  note t1 = origin_is_single_atom_reread
    [of options_two_origins double_epsilon, THEN conjunct1, THEN mp, OF n]
  have "\<exists>a. ORIGIN options_x = [a] \<and> requested_atoms density_x = [a]"
    using t [THEN conjunct2, THEN conjunct1, THEN mp, OF c] .
  then have r: "requested_atoms density_x = [1]"
    using o by simp
  have h: "requested_atoms density_x = [1] \<and> (single_run density_x \<or> getStep frame_cubic \<noteq> 0)
      \<and> update double_epsilon density_x frame_cubic = Inr s'"
    using r p u by simp
  have e: "origin s' = atom_position frame_cubic 1 \<and> requested_atoms s' = [1]"
    using t [THEN conjunct2, THEN conjunct2, THEN mp, OF h] by (elim conjE) (rule conjI)
  have a: "atom_position frame_cubic 1 0 = 1"
    by (simp add: frame_cubic_def)
  have "origin s' 0 = 1"
    using e a by (elim conjE) (simp only:)
  then have "\<exists>s'. update double_epsilon density_x frame_cubic = Inr s' \<and>
      origin s' = atom_position frame_cubic 1 \<and> origin s' 0 = 1 \<and> requested_atoms s' = [1]"
    using u e by (intro exI [of _ s']) (elim conjE, intro conjI)
  then show ?thesis
    using n t1 c o r p by (intro conjI)
qed

end
